theory Spec2Isabelle
  imports Complex_Main
begin

section \<open>Data model of the rhythm detector\<close>

text \<open>
  Python floats are modelled as reals and the results of \<open>len\<close> as naturals. Event types
  and labels are ASCII strings. The typed character and the final text are sequences of
  Unicode code points, since the text analyzer matches characters outside Latin-1 and
  \<open>len\<close> counts code points.
\<close>

type_synonym ustr = "nat list"

record TypingEvent =
  event_type :: string
  char :: ustr
  timestamp :: real

record PauseDict =
  short_pauses :: nat
  medium_pauses :: nat
  long_pauses :: nat
  pattern :: string

datatype PausePattern = CONTINUOUS | CHOPPY | THOUGHTFUL | CONTEMPLATIVE | MIXED

fun PausePattern_value :: "PausePattern \<Rightarrow> string" where
  "PausePattern_value CONTINUOUS = ''continuous''"
| "PausePattern_value CHOPPY = ''choppy''"
| "PausePattern_value THOUGHTFUL = ''thoughtful''"
| "PausePattern_value CONTEMPLATIVE = ''contemplative''"
| "PausePattern_value MIXED = ''mixed''"

definition SHORT_PAUSE_MIN :: real where "SHORT_PAUSE_MIN = 2"
definition SHORT_PAUSE_MAX :: real where "SHORT_PAUSE_MAX = 5"
definition MEDIUM_PAUSE_MIN :: real where "MEDIUM_PAUSE_MIN = 5"
definition MEDIUM_PAUSE_MAX :: real where "MEDIUM_PAUSE_MAX = 15"
definition LONG_PAUSE_MIN :: real where "LONG_PAUSE_MIN = 15"
definition HESITATION_THRESHOLD :: real where "HESITATION_THRESHOLD = 3"
definition BURST_INTERVAL_MAX :: real where "BURST_INTERVAL_MAX = 15 / 100"
definition BURST_MIN_LENGTH :: nat where "BURST_MIN_LENGTH = 5"

section \<open>Pause classifier\<close>

text \<open>\<open>sum(1 for i in intervals if c i)\<close> counts the intervals satisfying \<open>c\<close>.\<close>

fun count_if :: "('a \<Rightarrow> bool) \<Rightarrow> 'a list \<Rightarrow> nat" where
  "count_if c [] = 0"
| "count_if c (x # xs) = (if c x then 1 + count_if c xs else count_if c xs)"

definition analyze_pauses :: "real list \<Rightarrow> PauseDict" where
  "analyze_pauses intervals =
     (let short = count_if (\<lambda>i. SHORT_PAUSE_MIN \<le> i \<and> i < SHORT_PAUSE_MAX) intervals;
          medium = count_if (\<lambda>i. MEDIUM_PAUSE_MIN \<le> i \<and> i < MEDIUM_PAUSE_MAX) intervals;
          long = count_if (\<lambda>i. i \<ge> LONG_PAUSE_MIN) intervals;
          pat = (if long > 0 then CONTEMPLATIVE
                 else if medium > 0 then THOUGHTFUL
                 else if short > 0 then CHOPPY
                 else CONTINUOUS)
      in \<lparr>short_pauses = short, medium_pauses = medium, long_pauses = long,
          pattern = PausePattern_value pat\<rparr>)"

section \<open>Rounding\<close>

text \<open>
  \<open>round(x, n)\<close> on a float rounds to the nearest multiple of \<open>10 ^ -n\<close>, ties to the
  even neighbour.
\<close>

definition round_half_even :: "real \<Rightarrow> int" where
  "round_half_even x =
     (let f = \<lfloor>x\<rfloor>; d = x - of_int f
      in if d < 1 / 2 then f
         else if d > 1 / 2 then f + 1
         else if even f then f else f + 1)"

definition py_round :: "real \<Rightarrow> nat \<Rightarrow> real" where
  "py_round x n = of_int (round_half_even (x * 10 ^ n)) / 10 ^ n"

section \<open>Consistency estimator\<close>

definition calculate_consistency :: "real list \<Rightarrow> real" where
  "calculate_consistency intervals =
     (if length intervals < 2 then 0
      else let mean = sum_list intervals / real (length intervals)
           in if mean = 0 then 0
              else let variance = sum_list (map (\<lambda>x. (x - mean) ^ 2) intervals)
                                    / real (length intervals);
                       std_dev = sqrt variance;
                       cv = std_dev / mean
                   in max 0 (min 1 (1 - cv / 2)))"

section \<open>Deletion analyzer\<close>

record DeletionPattern =
  pat_type :: string
  pat_length :: nat

text \<open>
  The scanning loop of \<open>_analyze_deletions\<close>, with its two variables \<open>consecutive\<close> and
  \<open>patterns\<close>. Nothing follows the loop in the source: the function returns right after it.
\<close>

fun deletion_loop :: "TypingEvent list \<Rightarrow> nat \<Rightarrow> DeletionPattern list \<Rightarrow> DeletionPattern list" where
  "deletion_loop [] consecutive patterns = patterns"
| "deletion_loop (e # es) consecutive patterns =
     (if event_type e \<in> set [''backspace'', ''delete'']
      then deletion_loop es (consecutive + 1) patterns
      else deletion_loop es 0
             (if consecutive \<ge> 3
              then patterns @ [\<lparr>pat_type = ''consecutive'', pat_length = consecutive\<rparr>]
              else patterns))"

definition analyze_deletions :: "TypingEvent list \<Rightarrow> nat \<times> real \<times> DeletionPattern list" where
  "analyze_deletions events =
     (let deletion_events =
            filter (\<lambda>e. event_type e \<in> set [''backspace'', ''delete'', ''composition_delete'']) events;
          deletion_count = length deletion_events;
          deletion_ratio = (if events \<noteq> [] then real deletion_count / real (length events) else 0);
          patterns = deletion_loop events 0 []
      in (deletion_count, deletion_ratio, patterns))"

section \<open>Modification analyzer\<close>

definition analyze_modifications :: "TypingEvent list \<Rightarrow> nat \<times> unit list" where
  "analyze_modifications events =
     (let mod_events = filter (\<lambda>e. event_type e = ''selection'') events
      in (length mod_events, []))"

section \<open>Burst detector\<close>

record BurstSegment =
  burst_start :: nat
  burst_length :: nat
  avg_speed :: real

text \<open>The dictionary appended to \<open>bursts\<close>, at both places of \<open>_detect_bursts\<close>.\<close>

definition burst_record :: "nat \<Rightarrow> nat \<Rightarrow> real \<Rightarrow> BurstSegment" where
  "burst_record bstart current_burst_length current_burst_time =
     (let avg = (if current_burst_time > 0
                 then real current_burst_length / current_burst_time else 0)
      in \<lparr>burst_start = bstart, burst_length = current_burst_length,
          avg_speed = py_round avg 1\<rparr>)"

text \<open>
  The loop over \<open>enumerate(intervals)\<close>; the first argument is the index \<open>i\<close>, the last
  four are \<open>bursts\<close>, \<open>current_burst_length\<close>, \<open>current_burst_time\<close> and \<open>burst_start\<close>.
\<close>

fun burst_loop ::
  "nat \<Rightarrow> real list \<Rightarrow> BurstSegment list \<Rightarrow> nat \<Rightarrow> real \<Rightarrow> nat
     \<Rightarrow> BurstSegment list \<times> nat \<times> real \<times> nat" where
  "burst_loop i [] bursts len t bstart = (bursts, len, t, bstart)"
| "burst_loop i (interval # rest) bursts len t bstart =
     (if interval < BURST_INTERVAL_MAX
      then burst_loop (i + 1) rest bursts (len + 1) (t + interval)
             (if len = 0 then i else bstart)
      else burst_loop (i + 1) rest
             (if len \<ge> BURST_MIN_LENGTH then bursts @ [burst_record bstart len t] else bursts)
             0 0 bstart)"

text \<open>\<open>max(xs, default=d)\<close>.\<close>

fun max_default :: "real list \<Rightarrow> real \<Rightarrow> real" where
  "max_default [] d = d"
| "max_default (x # xs) d = fold max xs x"

definition detect_bursts :: "real list \<Rightarrow> nat \<times> BurstSegment list \<times> real" where
  "detect_bursts intervals =
     (case burst_loop 0 intervals [] 0 0 0 of
        (bursts, len, t, bstart) \<Rightarrow>
          let bursts' = (if len \<ge> BURST_MIN_LENGTH
                         then bursts @ [burst_record bstart len t] else bursts);
              max_speed = max_default (map avg_speed bursts') 0
          in (length bursts', bursts', max_speed))"

section \<open>Hesitation mapper\<close>

record Hesitation =
  location :: nat
  duration :: real
  severity :: string

fun hesitation_loop ::
  "nat \<Rightarrow> real list \<Rightarrow> Hesitation list \<Rightarrow> nat list \<Rightarrow> Hesitation list \<times> nat list" where
  "hesitation_loop i [] hesitations locations = (hesitations, locations)"
| "hesitation_loop i (interval # rest) hesitations locations =
     (if interval \<ge> HESITATION_THRESHOLD
      then let severity = (if interval \<ge> 10 then ''very_long''
                           else if interval \<ge> 5 then ''long''
                           else ''medium'')
           in hesitation_loop (i + 1) rest
                (hesitations @ [\<lparr>location = i, duration = py_round interval 2,
                                  severity = severity\<rparr>])
                (locations @ [i])
      else hesitation_loop (i + 1) rest hesitations locations)"

definition map_hesitations :: "real list \<Rightarrow> nat \<times> nat list \<times> Hesitation list" where
  "map_hesitations intervals =
     (case hesitation_loop 0 intervals [] [] of
        (hesitations, locations) \<Rightarrow> (length hesitations, locations, hesitations))"

section \<open>Fluency scorer\<close>

datatype FluencyLevel = VERY_FLUENT | FLUENT | NORMAL | HESITANT_LEVEL

fun FluencyLevel_value :: "FluencyLevel \<Rightarrow> string" where
  "FluencyLevel_value VERY_FLUENT = ''very_fluent''"
| "FluencyLevel_value FLUENT = ''fluent''"
| "FluencyLevel_value NORMAL = ''normal''"
| "FluencyLevel_value HESITANT_LEVEL = ''hesitant''"

definition calculate_fluency :: "real \<Rightarrow> real \<Rightarrow> PauseDict \<Rightarrow> nat \<Rightarrow> real \<times> string" where
  "calculate_fluency consistency deletion_ratio pause_pattern hesitation_count =
     (let stability_score = consistency;
          deletion_score = max 0 (1 - deletion_ratio * 2);
          pause_penalty = real (short_pauses pause_pattern
                                + medium_pauses pause_pattern * 2
                                + long_pauses pause_pattern * 3) / 10;
          pause_score = max 0 (1 - pause_penalty);
          hesitation_score = max 0 (1 - real hesitation_count / 5);
          fluency_score = 30 / 100 * stability_score + 30 / 100 * deletion_score
                          + 20 / 100 * pause_score + 20 / 100 * hesitation_score;
          level = (if fluency_score \<ge> 8 / 10 then VERY_FLUENT
                   else if fluency_score \<ge> 6 / 10 then FLUENT
                   else if fluency_score \<ge> 4 / 10 then NORMAL
                   else HESITANT_LEVEL)
      in (fluency_score, FluencyLevel_value level))"

section \<open>Rhythm classifier\<close>

datatype RhythmType =
  STEADY_FAST | BURST_FAST | ERRATIC_FAST | STEADY_SLOW | HESITANT | LABORED
  | FLUID | MEASURED | UNEVEN | BALANCED

fun RhythmType_value :: "RhythmType \<Rightarrow> string" where
  "RhythmType_value STEADY_FAST = ''steady_fast''"
| "RhythmType_value BURST_FAST = ''burst_fast''"
| "RhythmType_value ERRATIC_FAST = ''erratic_fast''"
| "RhythmType_value STEADY_SLOW = ''steady_slow''"
| "RhythmType_value HESITANT = ''hesitant''"
| "RhythmType_value LABORED = ''labored''"
| "RhythmType_value FLUID = ''fluid''"
| "RhythmType_value MEASURED = ''measured''"
| "RhythmType_value UNEVEN = ''uneven''"
| "RhythmType_value BALANCED = ''balanced''"

definition classify_rhythm_type :: "real \<Rightarrow> real \<Rightarrow> string \<Rightarrow> string" where
  "classify_rhythm_type cpm consistency pause_pattern =
     (if cpm > 120 then
        (if consistency > 7 / 10
         then (if pause_pattern = ''continuous'' then RhythmType_value STEADY_FAST
               else RhythmType_value BURST_FAST)
         else RhythmType_value ERRATIC_FAST)
      else if cpm < 60 then
        (if consistency > 7 / 10 then RhythmType_value STEADY_SLOW
         else if pause_pattern \<in> set [''thoughtful'', ''contemplative'']
              then RhythmType_value HESITANT
              else RhythmType_value LABORED)
      else
        (if consistency > 7 / 10 then RhythmType_value FLUID
         else if pause_pattern = ''thoughtful'' then RhythmType_value MEASURED
         else RhythmType_value UNEVEN))"

section \<open>Text rhythm analyzer\<close>

text \<open>
  The character class of the sentence pattern, \<open>. ! ?\<close> and the ideographic full stop,
  fullwidth exclamation mark and fullwidth question mark.
\<close>

definition is_terminal :: "nat \<Rightarrow> bool" where
  "is_terminal c \<longleftrightarrow> c \<in> set [46, 33, 63, 12290, 65281, 65311]"

text \<open>The character class of the punctuation pattern.\<close>

definition is_punctuation :: "nat \<Rightarrow> bool" where
  "is_punctuation c \<longleftrightarrow>
     c \<in> set [46, 44, 33, 63, 59, 58, 65292, 12290, 65281, 65311, 65307, 65306, 65374, 126]"

text \<open>The code points that \<open>str.strip\<close> removes.\<close>

definition is_space :: "nat \<Rightarrow> bool" where
  "is_space c \<longleftrightarrow>
     c \<in> set [9, 10, 11, 12, 13, 28, 29, 30, 31, 32, 133, 160, 5760, 8192, 8193, 8194, 8195,
              8196, 8197, 8198, 8199, 8200, 8201, 8202, 8232, 8233, 8239, 8287, 12288]"

definition strip :: "ustr \<Rightarrow> ustr" where
  "strip s = rev (dropWhile is_space (rev (dropWhile is_space s)))"

text \<open>
  \<open>re.split\<close> on one or more terminal characters: the second argument is the piece read
  so far; a terminal character ends it and the whole run of terminals is skipped.
\<close>

function re_split :: "ustr \<Rightarrow> ustr \<Rightarrow> ustr list" where
  "re_split [] cur = [cur]"
| "re_split (c # cs) cur =
     (if is_terminal c then cur # re_split (dropWhile is_terminal cs) []
      else re_split cs (cur @ [c]))"
  by pat_completeness auto
termination
  by (relation "measure (\<lambda>(text, cur). length text)")
     (auto simp: less_Suc_eq_le length_dropWhile_le)

record TextRhythm =
  sentence_count :: nat
  avg_sentence_length :: real
  punctuation_rate :: real
  rhythm_category :: string

definition analyze_text_rhythm :: "ustr \<Rightarrow> TextRhythm" where
  "analyze_text_rhythm text =
     (let sentences = map strip (filter (\<lambda>s. strip s \<noteq> []) (re_split text []));
          count = (if length sentences = 0 then 1 else length sentences);
          avg_len = real (length text) / real count;
          punctuation = filter is_punctuation text;
          rate = (if text \<noteq> [] then real (length punctuation) / real (length text) else 0);
          category =
            (if avg_len < 20 \<and> rate < 5 / 100 then ''concise''
             else if avg_len < 20 \<and> rate \<ge> 5 / 100 then ''staccato''
             else if avg_len \<ge> 50 \<and> rate < 5 / 100 then ''flowing''
             else if avg_len \<ge> 50 \<and> rate \<ge> 8 / 100 then ''complex''
             else if rate \<ge> 8 / 100 then ''punctuated''
             else ''balanced'')
      in \<lparr>sentence_count = count, avg_sentence_length = py_round avg_len 1,
          punctuation_rate = py_round rate 3, rhythm_category = category\<rparr>)"

section \<open>Result assembly\<close>

record TrajectoryPoint =
  traj_type :: string
  traj_char :: ustr
  traj_time :: real

record Profile =
  p_timestamp :: string
  duration_seconds :: real
  chars_per_minute :: real
  pause_pattern :: PauseDict
  consistency :: real
  text_rhythm :: TextRhythm
  rhythm_type :: string
  total_keystrokes :: nat
  actual_chars :: nat
  avg_interval :: real
  deletion_count :: nat
  deletion_ratio :: real
  deletion_patterns :: "DeletionPattern list"
  modification_count :: nat
  modifications :: "unit list"
  burst_count :: nat
  burst_segments :: "BurstSegment list"
  max_burst_speed :: real
  hesitation_count :: nat
  hesitation_locations :: "nat list"
  hesitations :: "Hesitation list"
  fluency_score :: real
  fluency_level :: string
  typing_trajectory :: "TrajectoryPoint list"
  keystroke_ratio :: real

text \<open>The events kept for the intervals, and the differences of consecutive timestamps.\<close>

definition type_events_of :: "TypingEvent list \<Rightarrow> TypingEvent list" where
  "type_events_of events =
     filter (\<lambda>e. event_type e \<in> set [''type'', ''composition'', ''composition_confirm'']) events"

definition intervals_of :: "TypingEvent list \<Rightarrow> real list" where
  "intervals_of type_events =
     map (\<lambda>i. timestamp (type_events ! i) - timestamp (type_events ! (i - 1)))
         [1 ..< length type_events]"

text \<open>
  \<open>_analyze\<close>. The session's events and start time are arguments; \<open>now_iso\<close> is what
  \<open>datetime.now().isoformat()\<close> returns when the result is built.
\<close>

definition analyze :: "string \<Rightarrow> TypingEvent list \<Rightarrow> real \<Rightarrow> ustr \<Rightarrow> real \<Rightarrow> Profile" where
  "analyze now_iso events start final_text end_time =
     (let dur = end_time - start;
          keystrokes = length events;
          chars = length final_text;
          intervals = intervals_of (type_events_of events);
          avg = (if intervals \<noteq> [] then sum_list intervals / real (length intervals) else 0);
          cpm = (if dur > 0 then real chars / dur * 60 else 0);
          cons = calculate_consistency intervals;
          pauses = analyze_pauses intervals
      in case analyze_deletions events of (del_count, del_ratio, del_patterns) \<Rightarrow>
         case analyze_modifications events of (mod_count, mods) \<Rightarrow>
         case detect_bursts intervals of (b_count, b_segments, max_speed) \<Rightarrow>
         case map_hesitations intervals of (h_count, h_locations, hs) \<Rightarrow>
         case calculate_fluency cons del_ratio pauses h_count of (score, level) \<Rightarrow>
         let rtype = classify_rhythm_type cpm cons (pattern pauses);
             trhythm = analyze_text_rhythm final_text;
             ratio = (if chars > 0 then real keystrokes / real chars else 0)
         in \<lparr>p_timestamp = now_iso,
             duration_seconds = py_round dur 2,
             chars_per_minute = py_round cpm 1,
             pause_pattern = pauses,
             consistency = py_round cons 3,
             text_rhythm = trhythm,
             rhythm_type = rtype,
             total_keystrokes = keystrokes,
             actual_chars = chars,
             avg_interval = py_round avg 3,
             deletion_count = del_count,
             deletion_ratio = py_round del_ratio 3,
             deletion_patterns = del_patterns,
             modification_count = mod_count,
             modifications = mods,
             burst_count = b_count,
             burst_segments = b_segments,
             max_burst_speed = py_round max_speed 1,
             hesitation_count = h_count,
             hesitation_locations = h_locations,
             hesitations = hs,
             fluency_score = py_round score 3,
             fluency_level = level,
             typing_trajectory =
               map (\<lambda>e. \<lparr>traj_type = event_type e, traj_char = char e,
                           traj_time = timestamp e\<rparr>) events,
             keystroke_ratio = py_round ratio 2\<rparr>)"

definition empty_result :: "string \<Rightarrow> Profile" where
  "empty_result now_iso =
     \<lparr>p_timestamp = now_iso,
      duration_seconds = 0,
      chars_per_minute = 0,
      pause_pattern = \<lparr>short_pauses = 0, medium_pauses = 0, long_pauses = 0,
                        pattern = ''continuous''\<rparr>,
      consistency = 0,
      text_rhythm = \<lparr>sentence_count = 0, avg_sentence_length = 0, punctuation_rate = 0,
                      rhythm_category = ''balanced''\<rparr>,
      rhythm_type = ''balanced'',
      total_keystrokes = 0,
      actual_chars = 0,
      avg_interval = 0,
      deletion_count = 0,
      deletion_ratio = 0,
      deletion_patterns = [],
      modification_count = 0,
      modifications = [],
      burst_count = 0,
      burst_segments = [],
      max_burst_speed = 0,
      hesitation_count = 0,
      hesitation_locations = [],
      hesitations = [],
      fluency_score = 0,
      fluency_level = ''normal'',
      typing_trajectory = [],
      keystroke_ratio = 0\<rparr>"

section \<open>Session recorder\<close>

text \<open>
  The detector object. \<open>start_time\<close> is \<open>None\<close> until monitoring starts. Each operation
  takes the state and returns the new one; the readings of the clock (\<open>time.time()\<close>) and
  of \<open>datetime.now().isoformat()\<close> are arguments.
\<close>

record Session =
  events :: "TypingEvent list"
  is_monitoring :: bool
  start_time :: "real option"

definition init :: Session where
  "init = \<lparr>events = [], is_monitoring = False, start_time = None\<rparr>"

definition start_monitoring :: "real \<Rightarrow> Session \<Rightarrow> Session" where
  "start_monitoring now s = s\<lparr>events := [], is_monitoring := True, start_time := Some now\<rparr>"


text \<open>
  \<open>not self.start_time\<close> holds when the start time is \<open>None\<close> and also when it is \<open>0.0\<close>.
\<close>

definition finish_monitoring :: "real \<Rightarrow> string \<Rightarrow> ustr \<Rightarrow> Session \<Rightarrow> Session \<times> Profile" where
  "finish_monitoring now now_iso final_text s =
     (let s' = s\<lparr>is_monitoring := False\<rparr>;
          end_time = now
      in case start_time s' of
           None \<Rightarrow> (s', empty_result now_iso)
         | Some start \<Rightarrow>
             if events s' = [] \<or> start = 0 then (s', empty_result now_iso)
             else (s', analyze now_iso (events s') start final_text end_time))"

section \<open>Reference definitions for the consistency score\<close>

text \<open>
  The score as the specification words it: the mean and the variance of the population
  (the variance divided by the count), and a clamp to an interval.
\<close>

definition pop_mean :: "real list \<Rightarrow> real" where
  "pop_mean xs = sum_list xs / real (length xs)"

definition pop_variance :: "real list \<Rightarrow> real" where
  "pop_variance xs = (\<Sum>x\<leftarrow>xs. (x - pop_mean xs) ^ 2) / real (length xs)"

definition clamp :: "real \<Rightarrow> real \<Rightarrow> real \<Rightarrow> real" where
  "clamp lo hi x = (if x < lo then lo else if x > hi then hi else x)"

section \<open>Reference definitions for the burst detector\<close>

text \<open>
  Bursts as the specification describes them: the maximal runs of intervals below 150 ms,
  each with the index of its first interval; a run of at least five intervals is a burst,
  with the rounded average speed the detector stores.
\<close>

definition fast :: "real \<Rightarrow> bool" where
  "fast x \<longleftrightarrow> x < 15 / 100"

function fast_runs :: "nat \<Rightarrow> real list \<Rightarrow> (nat \<times> real list) list" where
  "fast_runs i [] = []"
| "fast_runs i (x # xs) =
     (if fast x
      then (i, x # takeWhile fast xs)
             # fast_runs (i + 1 + length (takeWhile fast xs)) (dropWhile fast xs)
      else fast_runs (i + 1) xs)"
  by pat_completeness auto
termination
  by (relation "measure (\<lambda>(i, xs). length xs)")
     (auto simp: less_Suc_eq_le length_dropWhile_le)

definition burst_of_run :: "nat \<times> real list \<Rightarrow> BurstSegment" where
  "burst_of_run r =
     \<lparr>burst_start = fst r, burst_length = length (snd r),
      avg_speed = py_round (if sum_list (snd r) > 0
                            then real (length (snd r)) / sum_list (snd r) else 0) 1\<rparr>"

definition spec_bursts :: "real list \<Rightarrow> BurstSegment list" where
  "spec_bursts xs = map burst_of_run (filter (\<lambda>r. length (snd r) \<ge> 5) (fast_runs 0 xs))"

text \<open>
  The burst that the detector appends when it closes a run, as a list, and the segments
  it returns from the state its loop ends in.
\<close>

definition close_burst :: "nat \<Rightarrow> real \<Rightarrow> nat \<Rightarrow> BurstSegment list" where
  "close_burst len t bstart = (if len \<ge> BURST_MIN_LENGTH then [burst_record bstart len t] else [])"

definition final_bursts :: "BurstSegment list \<times> nat \<times> real \<times> nat \<Rightarrow> BurstSegment list" where
  "final_bursts st = (case st of (bursts, len, t, bstart) \<Rightarrow> bursts @ close_burst len t bstart)"

section \<open>Basic facts\<close>

lemma count_if_filter: "count_if c xs = length (filter c xs)"
  by (induction xs) auto

lemma count_if_pos: "count_if c xs > 0 \<longleftrightarrow> (\<exists>x \<in> set xs. c x)"
  by (induction xs) auto

section \<open>Pause classifier: buckets and priority\<close>

lemmas pause_consts = SHORT_PAUSE_MIN_def SHORT_PAUSE_MAX_def MEDIUM_PAUSE_MIN_def
  MEDIUM_PAUSE_MAX_def LONG_PAUSE_MIN_def

lemma filter_partition3:
  "length (filter (\<lambda>i::real. 2 \<le> i \<and> i < 5) xs) + length (filter (\<lambda>i. 5 \<le> i \<and> i < 15) xs)
     + length (filter (\<lambda>i. 15 \<le> i) xs) = length (filter (\<lambda>i. 2 \<le> i) xs)"
  by (induction xs) auto

text \<open>
  C6. For every interval sequence the pause classifier counts the intervals in \<open>[2, 5)\<close> as
  short, those in \<open>[5, 15)\<close> as medium and those at or above 15 as long; an interval below
  2 is in no bucket, so the three counts add up to the number of intervals at or above 2.
  The pattern is chosen by strict priority: contemplative if there is a long pause, else
  thoughtful if there is a medium one, else choppy if there is a short one, else
  continuous. The intervals \<open>[16, 1]\<close> give contemplative.
\<close>

theorem analyze_pauses_buckets:
  "short_pauses (analyze_pauses xs) = length (filter (\<lambda>i. 2 \<le> i \<and> i < 5) xs)
   \<and> medium_pauses (analyze_pauses xs) = length (filter (\<lambda>i. 5 \<le> i \<and> i < 15) xs)
   \<and> long_pauses (analyze_pauses xs) = length (filter (\<lambda>i. 15 \<le> i) xs)
   \<and> short_pauses (analyze_pauses xs) + medium_pauses (analyze_pauses xs)
       + long_pauses (analyze_pauses xs) = length (filter (\<lambda>i. 2 \<le> i) xs)
   \<and> pattern (analyze_pauses xs) =
       (if \<exists>i \<in> set xs. 15 \<le> i then ''contemplative''
        else if \<exists>i \<in> set xs. 5 \<le> i \<and> i < 15 then ''thoughtful''
        else if \<exists>i \<in> set xs. 2 \<le> i \<and> i < 5 then ''choppy''
        else ''continuous'')
   \<and> pattern (analyze_pauses [16, 1]) = ''contemplative''"
proof -
  have s: "short_pauses (analyze_pauses xs) = length (filter (\<lambda>i. 2 \<le> i \<and> i < 5) xs)"
    by (simp add: analyze_pauses_def Let_def pause_consts count_if_filter)
  have m: "medium_pauses (analyze_pauses xs) = length (filter (\<lambda>i. 5 \<le> i \<and> i < 15) xs)"
    by (simp add: analyze_pauses_def Let_def pause_consts count_if_filter)
  have l: "long_pauses (analyze_pauses xs) = length (filter (\<lambda>i. 15 \<le> i) xs)"
    by (simp add: analyze_pauses_def Let_def pause_consts count_if_filter)
  have p: "pattern (analyze_pauses xs) =
       (if \<exists>i \<in> set xs. 15 \<le> i then ''contemplative''
        else if \<exists>i \<in> set xs. 5 \<le> i \<and> i < 15 then ''thoughtful''
        else if \<exists>i \<in> set xs. 2 \<le> i \<and> i < 5 then ''choppy''
        else ''continuous'')"
    by (auto simp add: analyze_pauses_def Let_def pause_consts count_if_pos)
  have e: "pattern (analyze_pauses [16, 1]) = ''contemplative''"
    by (simp add: analyze_pauses_def Let_def pause_consts)
  from s m l p e filter_partition3 [of xs] show ?thesis by simp
qed

theorem analyze_pauses_buckets_witness:
  "short_pauses (analyze_pauses [3, 7, 1]) = 1 \<and> medium_pauses (analyze_pauses [3, 7, 1]) = 1
   \<and> long_pauses (analyze_pauses [3, 7, 1]) = 0
   \<and> pattern (analyze_pauses [3, 7, 1]) = ''thoughtful''"
  using analyze_pauses_buckets [of "[3, 7, 1]"] by simp

section \<open>Empty sessions\<close>

text \<open>
  C1. When the event log is empty or the session was never started, \<open>finish_monitoring\<close>
  returns the empty default: every count and number is 0, the pause pattern is continuous,
  the text rhythm category and the rhythm type are balanced, the fluency level is normal
  and every list is empty; the timestamp is the generation time. The result is the same
  for every final text.
\<close>

theorem finish_monitoring_empty_default:
  assumes "events s = [] \<or> start_time s = None"
  shows "snd (finish_monitoring now now_iso final_text s) =
           \<lparr>p_timestamp = now_iso, duration_seconds = 0, chars_per_minute = 0,
            pause_pattern = \<lparr>short_pauses = 0, medium_pauses = 0, long_pauses = 0,
                              pattern = ''continuous''\<rparr>,
            consistency = 0,
            text_rhythm = \<lparr>sentence_count = 0, avg_sentence_length = 0, punctuation_rate = 0,
                            rhythm_category = ''balanced''\<rparr>,
            rhythm_type = ''balanced'', total_keystrokes = 0, actual_chars = 0,
            avg_interval = 0, deletion_count = 0, deletion_ratio = 0, deletion_patterns = [],
            modification_count = 0, modifications = [], burst_count = 0, burst_segments = [],
            max_burst_speed = 0, hesitation_count = 0, hesitation_locations = [],
            hesitations = [], fluency_score = 0, fluency_level = ''normal'',
            typing_trajectory = [], keystroke_ratio = 0\<rparr>
         \<and> snd (finish_monitoring now now_iso final_text s) =
             snd (finish_monitoring now now_iso other_text s)"
  using assms
  by (auto simp add: finish_monitoring_def empty_result_def Let_def split: option.splits)

theorem finish_monitoring_empty_default_witness:
  "(events (start_monitoring 5 init) = [] \<or> start_time (start_monitoring 5 init) = None)
   \<and> rhythm_type (snd (finish_monitoring 10 ''2025-01-01T00:00:00'' [72, 105]
        (start_monitoring 5 init))) = ''balanced''
   \<and> snd (finish_monitoring 10 ''2025-01-01T00:00:00'' [72, 105] (start_monitoring 5 init)) =
     snd (finish_monitoring 10 ''2025-01-01T00:00:00'' [] (start_monitoring 5 init))"
proof -
  have h: "events (start_monitoring 5 init) = [] \<or> start_time (start_monitoring 5 init) = None"
    by (simp add: start_monitoring_def init_def)
  note r = finish_monitoring_empty_default [OF h, of 10 "''2025-01-01T00:00:00''" "[72, 105]" "[]"]
  have "rhythm_type (snd (finish_monitoring 10 ''2025-01-01T00:00:00'' [72, 105]
        (start_monitoring 5 init))) = ''balanced''"
    by (simp add: conjunct1 [OF r])
  with h conjunct2 [OF r] show ?thesis by blast
qed

section \<open>Deletion runs at the end of the log\<close>

text \<open>
  C3. The deletion scan emits a run of at least three consecutive backspace or delete
  events when another event closes it. A run that reaches the end of the log is not
  emitted: three backspaces alone give no pattern, the same three followed by a typed
  character give one pattern of length 3. A run of three closed by a selection event is
  emitted, and two trailing backspaces give no pattern.
\<close>

theorem deletion_trailing_run_dropped:
  "analyze_deletions
     [\<lparr>event_type = ''backspace'', char = [], timestamp = 1\<rparr>,
      \<lparr>event_type = ''backspace'', char = [], timestamp = 2\<rparr>,
      \<lparr>event_type = ''backspace'', char = [], timestamp = 3\<rparr>] = (3, 1, [])
   \<and> analyze_deletions
     [\<lparr>event_type = ''backspace'', char = [], timestamp = 1\<rparr>,
      \<lparr>event_type = ''backspace'', char = [], timestamp = 2\<rparr>,
      \<lparr>event_type = ''backspace'', char = [], timestamp = 3\<rparr>,
      \<lparr>event_type = ''type'', char = [97], timestamp = 4\<rparr>] =
       (3, 3 / 4, [\<lparr>pat_type = ''consecutive'', pat_length = 3\<rparr>])
   \<and> snd (snd (analyze_deletions
     [\<lparr>event_type = ''type'', char = [97], timestamp = 1\<rparr>,
      \<lparr>event_type = ''backspace'', char = [], timestamp = 2\<rparr>,
      \<lparr>event_type = ''delete'', char = [], timestamp = 3\<rparr>,
      \<lparr>event_type = ''backspace'', char = [], timestamp = 4\<rparr>,
      \<lparr>event_type = ''selection'', char = [], timestamp = 5\<rparr>])) =
       [\<lparr>pat_type = ''consecutive'', pat_length = 3\<rparr>]
   \<and> snd (snd (analyze_deletions
     [\<lparr>event_type = ''backspace'', char = [], timestamp = 1\<rparr>,
      \<lparr>event_type = ''backspace'', char = [], timestamp = 2\<rparr>])) = []"
  by (simp add: analyze_deletions_def Let_def)

text \<open>
  The same holds for every log that ends in deletions: whatever the length of the last
  run, the scan returns the patterns it had before that run.
\<close>

lemma deletion_loop_trailing:
  "\<forall>e \<in> set es. event_type e = ''backspace'' \<or> event_type e = ''delete'' \<Longrightarrow>
   deletion_loop es consecutive patterns = patterns"
  by (induction es arbitrary: consecutive) simp_all

section \<open>What a profile depends on\<close>



section \<open>Consistency score\<close>

lemma calculate_consistency_range:
  "0 \<le> calculate_consistency xs \<and> calculate_consistency xs \<le> 1"
  by (simp add: calculate_consistency_def Let_def)

text \<open>
  C5. The consistency score is 0 for fewer than two intervals or a mean of 0, and otherwise
  \<open>1 - cv / 2\<close> clamped to \<open>[0, 1]\<close>, where \<open>cv\<close> is the population standard deviation
  (variance divided by the count) over the mean. It always lies in \<open>[0, 1]\<close>. For the
  intervals \<open>[1, 3]\<close> the population variance is 1 and the score is \<open>3 / 4\<close>.
\<close>

theorem calculate_consistency_spec:
  "calculate_consistency xs =
     (if length xs < 2 \<or> pop_mean xs = 0 then 0
      else clamp 0 1 (1 - (sqrt (pop_variance xs) / pop_mean xs) / 2))
   \<and> 0 \<le> calculate_consistency xs \<and> calculate_consistency xs \<le> 1
   \<and> calculate_consistency [1, 3] = 3 / 4"
proof -
  have c: "max 0 (min 1 y) = clamp 0 1 y" for y
    by (simp add: clamp_def max_def min_def)
  have a: "calculate_consistency xs =
     (if length xs < 2 \<or> pop_mean xs = 0 then 0
      else clamp 0 1 (1 - (sqrt (pop_variance xs) / pop_mean xs) / 2))"
    unfolding calculate_consistency_def Let_def c pop_variance_def pop_mean_def
    by (cases "length xs < 2"; cases "sum_list xs / real (length xs) = 0") (simp_all only: if_True if_False simp_thms)
  have b: "calculate_consistency [1, 3] = 3 / 4"
    by (simp add: calculate_consistency_def Let_def power2_eq_square)
  from a b calculate_consistency_range [of xs] show ?thesis by simp
qed

theorem calculate_consistency_spec_witness:
  "calculate_consistency [2, 2, 2] = 1 \<and> calculate_consistency [5] = 0
   \<and> calculate_consistency [1, -1] = 0"
  using calculate_consistency_spec [of "[2, 2, 2]"] calculate_consistency_spec [of "[5]"]
    calculate_consistency_spec [of "[1, -1]"]
  by (simp add: pop_mean_def pop_variance_def clamp_def)

section \<open>Rounding and ranges\<close>





section \<open>Fields of the assembled profile\<close>



lemma analyze_rhythm_type:
  "rhythm_type (analyze now_iso evs st final_text en) =
     classify_rhythm_type
       (if en - st > 0 then real (length final_text) / (en - st) * 60 else 0)
       (calculate_consistency (intervals_of (type_events_of evs)))
       (pattern (analyze_pauses (intervals_of (type_events_of evs))))"
  by (simp add: analyze_def Let_def split_def)

section \<open>Fluency score\<close>



section \<open>Rhythm type\<close>

text \<open>
  C9. The rhythm type of a session is the decision table applied to the unrounded
  characters per minute (\<open>actual_chars / duration * 60\<close>, 0 for a duration at or below 0),
  the unrounded consistency and the pause pattern. Above 120 the fast band, below 60 the
  slow band, otherwise the medium band; 120 and 60 themselves are in the medium band.
\<close>

theorem rhythm_decision_table:
  "rhythm_type (analyze now_iso evs st final_text en) =
     classify_rhythm_type
       (if en - st \<le> 0 then 0 else real (length final_text) / (en - st) * 60)
       (calculate_consistency (intervals_of (type_events_of evs)))
       (pattern (analyze_pauses (intervals_of (type_events_of evs))))
   \<and> classify_rhythm_type cpm c p =
       (if cpm > 120 then
          (if c > 7 / 10 then (if p = ''continuous'' then ''steady_fast'' else ''burst_fast'')
           else ''erratic_fast'')
        else if cpm < 60 then
          (if c > 7 / 10 then ''steady_slow''
           else if p = ''thoughtful'' \<or> p = ''contemplative'' then ''hesitant''
           else ''labored'')
        else
          (if c > 7 / 10 then ''fluid''
           else if p = ''thoughtful'' then ''measured''
           else ''uneven''))
   \<and> classify_rhythm_type 120 c p =
       (if c > 7 / 10 then ''fluid'' else if p = ''thoughtful'' then ''measured'' else ''uneven'')
   \<and> classify_rhythm_type 60 c p =
       (if c > 7 / 10 then ''fluid'' else if p = ''thoughtful'' then ''measured'' else ''uneven'')"
proof -
  have a: "rhythm_type (analyze now_iso evs st final_text en) =
     classify_rhythm_type
       (if en - st \<le> 0 then 0 else real (length final_text) / (en - st) * 60)
       (calculate_consistency (intervals_of (type_events_of evs)))
       (pattern (analyze_pauses (intervals_of (type_events_of evs))))"
    by (simp add: analyze_rhythm_type not_le [symmetric])
  have b: "classify_rhythm_type x c p =
       (if x > 120 then
          (if c > 7 / 10 then (if p = ''continuous'' then ''steady_fast'' else ''burst_fast'')
           else ''erratic_fast'')
        else if x < 60 then
          (if c > 7 / 10 then ''steady_slow''
           else if p = ''thoughtful'' \<or> p = ''contemplative'' then ''hesitant''
           else ''labored'')
        else
          (if c > 7 / 10 then ''fluid''
           else if p = ''thoughtful'' then ''measured''
           else ''uneven''))" for x
    by (simp add: classify_rhythm_type_def)
  show ?thesis using a b [of cpm] b [of 120] b [of 60] by simp
qed

theorem rhythm_decision_table_witness:
  "classify_rhythm_type 121 (8 / 10) ''choppy'' = ''burst_fast''
   \<and> classify_rhythm_type 59 (1 / 2) ''contemplative'' = ''hesitant''
   \<and> classify_rhythm_type 120 (1 / 2) ''thoughtful'' = ''measured''"
  using rhythm_decision_table [of "[]" "[]" 0 "[]" 1 121 "8 / 10" "''choppy''"]
    rhythm_decision_table [of "[]" "[]" 0 "[]" 1 59 "1 / 2" "''contemplative''"]
    rhythm_decision_table [of "[]" "[]" 0 "[]" 1 120 "1 / 2" "''thoughtful''"]
  by simp

section \<open>Finishing twice\<close>




section \<open>Burst detector: the loop finds the maximal fast runs\<close>

lemma burst_loop_fast_prefix:
  "\<forall>x \<in> set ys. fast x \<Longrightarrow>
   burst_loop i (ys @ zs) bursts len t b =
   burst_loop (i + length ys) zs bursts (len + length ys) (t + sum_list ys)
     (if len = 0 \<and> ys \<noteq> [] then i else b)"
proof (induction ys arbitrary: i len t b)
  case Nil
  then show ?case by simp
next
  case (Cons y ys)
  then show ?case
    by (simp add: fast_def BURST_INTERVAL_MAX_def add.assoc)
qed

lemma burst_loop_close:
  "zs = [] \<or> \<not> fast (hd zs) \<Longrightarrow>
   final_bursts (burst_loop j zs bursts len t b) =
   final_bursts (burst_loop j zs (bursts @ close_burst len t b) 0 0 b)"
  by (cases zs)
     (auto simp: final_bursts_def close_burst_def fast_def BURST_INTERVAL_MAX_def
        BURST_MIN_LENGTH_def)

lemma dropWhile_head: "dropWhile P xs = [] \<or> \<not> P (hd (dropWhile P xs))"
  by (metis hd_dropWhile)

lemma burst_record_run:
  "burst_record i (Suc (length r)) (x + sum_list r) = burst_of_run (i, x # r)"
  by (simp add: burst_record_def burst_of_run_def Let_def)

lemma burst_loop_runs:
  "final_bursts (burst_loop i xs bursts 0 0 b) =
   bursts @ map burst_of_run (filter (\<lambda>r. length (snd r) \<ge> 5) (fast_runs i xs))"
proof (induction i xs arbitrary: bursts b rule: fast_runs.induct)
  case (1 i)
  then show ?case
    by (simp add: final_bursts_def close_burst_def BURST_MIN_LENGTH_def)
next
  case (2 i x xs)
  show ?case
  proof (cases "fast x")
    case False
    then have "burst_loop i (x # xs) bursts 0 0 b = burst_loop (i + 1) xs bursts 0 0 b"
      by (simp add: fast_def BURST_INTERVAL_MAX_def BURST_MIN_LENGTH_def)
    with False "2.IH"(2) [of bursts b] show ?thesis by simp
  next
    case True
    define r where "r = takeWhile fast xs"
    define d where "d = dropWhile fast xs"
    have xs: "x # xs = (x # r) @ d" by (simp add: r_def d_def)
    have allfast: "\<forall>y \<in> set (x # r). fast y"
      using True by (auto simp: r_def dest: set_takeWhileD)
    have "burst_loop i ((x # r) @ d) bursts 0 0 b =
          burst_loop (i + length (x # r)) d bursts (0 + length (x # r)) (0 + sum_list (x # r)) i"
      using burst_loop_fast_prefix [OF allfast, of i d bursts 0 0 b] by simp
    then have step: "burst_loop i (x # xs) bursts 0 0 b =
          burst_loop (i + 1 + length r) d bursts (Suc (length r)) (x + sum_list r) i"
      by (simp add: xs)
    have "final_bursts (burst_loop (i + 1 + length r) d bursts (Suc (length r)) (x + sum_list r) i)
        = final_bursts (burst_loop (i + 1 + length r) d
            (bursts @ close_burst (Suc (length r)) (x + sum_list r) i) 0 0 i)"
      unfolding d_def by (rule burst_loop_close) (rule dropWhile_head)
    also have "\<dots> = (bursts @ close_burst (Suc (length r)) (x + sum_list r) i)
        @ map burst_of_run (filter (\<lambda>r. length (snd r) \<ge> 5) (fast_runs (i + 1 + length r) d))"
      using "2.IH"(1) [OF True] by (simp add: r_def d_def)
    finally have lhs: "final_bursts (burst_loop i (x # xs) bursts 0 0 b) =
        (bursts @ close_burst (Suc (length r)) (x + sum_list r) i)
        @ map burst_of_run (filter (\<lambda>r. length (snd r) \<ge> 5) (fast_runs (i + 1 + length r) d))"
      by (simp only: step)
    have rhs: "fast_runs i (x # xs) = (i, x # r) # fast_runs (i + 1 + length r) d"
      using True by (simp add: r_def d_def)
    have cl: "close_burst (Suc (length r)) (x + sum_list r) i =
        map burst_of_run (filter (\<lambda>r. length (snd r) \<ge> 5) [(i, x # r)])"
      by (simp add: close_burst_def BURST_MIN_LENGTH_def burst_record_run)
    show ?thesis
      unfolding lhs rhs cl by simp
  qed
qed

lemma max_default_Max:
  "max_default ys 0 = (if ys = [] then 0 else Max (set ys))"
proof (cases ys)
  case Nil
  then show ?thesis by simp
next
  case (Cons a l)
  have "max_default (a # l) 0 = Max (set (a # l))"
    by (simp only: max_default.simps Max.set_eq_fold)
  with Cons show ?thesis by simp
qed

lemma detect_bursts_eq:
  "detect_bursts xs = (length (spec_bursts xs), spec_bursts xs,
      max_default (map avg_speed (spec_bursts xs)) 0)"
proof -
  obtain bursts len t b where st: "burst_loop 0 xs [] 0 0 0 = (bursts, len, t, b)"
    by (metis prod_cases4)
  have "final_bursts (burst_loop 0 xs [] 0 0 0) = spec_bursts xs"
    by (simp add: burst_loop_runs spec_bursts_def)
  then have fin: "bursts @ close_burst len t b = spec_bursts xs"
    by (simp add: st final_bursts_def)
  have "(if len \<ge> BURST_MIN_LENGTH then bursts @ [burst_record b len t] else bursts)
          = bursts @ close_burst len t b"
    by (simp add: close_burst_def)
  then show ?thesis
    by (simp add: detect_bursts_def st Let_def fin del: max_default.simps)
qed

text \<open>
  The reference runs are what their name says: each is a non-empty block of consecutive
  intervals below 150 ms, starting at its index, that cannot be extended to the left or
  to the right.
\<close>

lemma fast_runs_sound:
  "(i, r) \<in> set (fast_runs k xs) \<Longrightarrow>
     k \<le> i \<and> r \<noteq> [] \<and> (\<forall>x \<in> set r. fast x)
     \<and> i - k + length r \<le> length xs
     \<and> take (length r) (drop (i - k) xs) = r
     \<and> (i - k + length r = length xs \<or> \<not> fast (xs ! (i - k + length r)))
     \<and> (i = k \<or> \<not> fast (xs ! (i - k - 1)))"
proof (induction k xs arbitrary: i r rule: fast_runs.induct)
  case (1 k)
  then show ?case by simp
next
  case (2 k x xs)
  show ?case
  proof (cases "fast x")
    case False
    with "2.prems" have mem: "(i, r) \<in> set (fast_runs (k + 1) xs)" by simp
    note ih = "2.IH"(2) [OF False mem]
    from ih have ki: "k + 1 \<le> i" by simp
    then have idx: "i - k = Suc (i - (k + 1))" by simp
    from ih False ki show ?thesis
      by (auto simp add: idx nth_Cons')
  next
    case True
    define tw where "tw = takeWhile fast xs"
    define dw where "dw = dropWhile fast xs"
    have xs: "xs = tw @ dw" by (simp add: tw_def dw_def)
    have twfast: "\<forall>y \<in> set tw. fast y" by (auto simp: tw_def dest: set_takeWhileD)
    have dwhead: "dw = [] \<or> \<not> fast (hd dw)" unfolding dw_def by (rule dropWhile_head)
    from "2.prems" True have
      "(i, r) = (k, x # tw) \<or> (i, r) \<in> set (fast_runs (k + 1 + length tw) dw)"
      by (simp add: tw_def dw_def)
    then show ?thesis
    proof
      assume "(i, r) = (k, x # tw)"
      then have eq: "i = k" "r = x # tw" by simp_all
      have right: "length tw = length xs \<or> \<not> fast (xs ! length tw)"
        using dwhead by (cases dw) (simp_all add: xs nth_append)
      show ?thesis
        using True twfast right by (simp add: eq xs)
    next
      assume mem: "(i, r) \<in> set (fast_runs (k + 1 + length tw) dw)"
      note ih = "2.IH"(1) [OF True mem [unfolded tw_def dw_def], folded tw_def dw_def]
      define j where "j = i - (k + 1 + length tw)"
      from ih have ki: "k + 1 + length tw \<le> i" by simp
      then have idx: "i - k = Suc (length tw + j)" by (simp add: j_def)
      have "j \<noteq> 0"
      proof
        assume j0: "j = 0"
        with ih have "take (length r) dw = r" "r \<noteq> []" "\<forall>y \<in> set r. fast y"
          by (simp_all add: j_def)
        then have "dw \<noteq> [] \<and> fast (hd dw)"
          by (cases dw; cases r) auto
        with dwhead show False by simp
      qed
      then have left: "\<not> fast ((x # xs) ! (i - k - 1))"
        using ih ki by (auto simp add: idx xs nth_append j_def)
      from ih ki left show ?thesis
        by (auto simp add: idx xs nth_append j_def)
    qed
  qed
qed

lemmas burst_eval = detect_bursts_def BURST_INTERVAL_MAX_def BURST_MIN_LENGTH_def burst_record_def
  py_round_def round_half_even_def Let_def

text \<open>
  C7, as stated: an emitted segment has \<open>avg_speed = length / cumulative_time\<close>. Five
  intervals of 0.14 s closed by a gap give the segment speed 7.1, not \<open>5 / 0.7\<close>.
\<close>

theorem burst_avg_speed_counterexample:
  "fst (snd (detect_bursts [14 / 100, 14 / 100, 14 / 100, 14 / 100, 14 / 100, 1])) =
     [\<lparr>burst_start = 0, burst_length = 5, avg_speed = 71 / 10\<rparr>]
   \<and> (71 / 10 :: real) \<noteq> 5 / (14 / 100 + 14 / 100 + 14 / 100 + 14 / 100 + 14 / 100)"
  by (simp add: burst_eval)

text \<open>
  C7, amended. The segments the detector returns are the maximal runs of intervals below
  0.15 s that have at least five intervals, in order, closed by an interval at or above
  0.15 s or by the end of the sequence; each has the index of its first interval, its
  length, and as \<open>avg_speed\<close> the quotient \<open>length / cumulative_time\<close> rounded to one
  decimal when the cumulative time is positive and 0 otherwise. The burst count is the
  number of segments and the maximum speed is the largest \<open>avg_speed\<close> (0 without
  segments). Five intervals of 0.1 s and a gap give one burst of length 5 and speed 10;
  five intervals of 0.1 s alone give one burst.
\<close>

theorem detect_bursts_runs:
  "fst (snd (detect_bursts xs)) = spec_bursts xs
   \<and> fst (detect_bursts xs) = length (spec_bursts xs)
   \<and> snd (snd (detect_bursts xs)) =
       (if spec_bursts xs = [] then 0 else Max (set (map avg_speed (spec_bursts xs))))
   \<and> detect_bursts [1 / 10, 1 / 10, 1 / 10, 1 / 10, 1 / 10, 1] =
       (1, [\<lparr>burst_start = 0, burst_length = 5, avg_speed = 10\<rparr>], 10)
   \<and> fst (detect_bursts [1 / 10, 1 / 10, 1 / 10, 1 / 10, 1 / 10]) = 1"
proof -
  have ex1: "detect_bursts [1 / 10, 1 / 10, 1 / 10, 1 / 10, 1 / 10, 1] =
       (1, [\<lparr>burst_start = 0, burst_length = 5, avg_speed = 10\<rparr>], 10)"
    by (simp add: burst_eval)
  have ex2: "fst (detect_bursts [1 / 10, 1 / 10, 1 / 10, 1 / 10, 1 / 10]) = 1"
    by (simp add: burst_eval)
  have segs: "fst (snd (detect_bursts xs)) = spec_bursts xs"
    by (simp only: detect_bursts_eq fst_conv snd_conv)
  have cnt: "fst (detect_bursts xs) = length (spec_bursts xs)"
    by (simp only: detect_bursts_eq fst_conv)
  have mx: "snd (snd (detect_bursts xs)) =
       (if spec_bursts xs = [] then 0 else Max (set (map avg_speed (spec_bursts xs))))"
    by (simp only: detect_bursts_eq snd_conv max_default_Max map_is_Nil_conv)
  from segs cnt mx ex1 ex2 show ?thesis by blast
qed

theorem detect_bursts_runs_witness:
  "spec_bursts [2 / 10, 1 / 10, 1 / 10, 1 / 10, 1 / 10, 1 / 10, 1 / 10, 3, 1 / 10] =
     [\<lparr>burst_start = 1, burst_length = 6, avg_speed = 10\<rparr>]
   \<and> fst (snd (detect_bursts [2 / 10, 1 / 10, 1 / 10, 1 / 10, 1 / 10, 1 / 10, 1 / 10, 3, 1 / 10])) =
     [\<lparr>burst_start = 1, burst_length = 6, avg_speed = 10\<rparr>]"
proof -
  have "spec_bursts [2 / 10, 1 / 10, 1 / 10, 1 / 10, 1 / 10, 1 / 10, 1 / 10, 3, 1 / 10] =
     [\<lparr>burst_start = 1, burst_length = 6, avg_speed = 10\<rparr>]"
    by (simp add: spec_bursts_def fast_def burst_of_run_def py_round_def round_half_even_def)
  then show ?thesis
    using detect_bursts_runs [of "[2 / 10, 1 / 10, 1 / 10, 1 / 10, 1 / 10, 1 / 10, 1 / 10, 3, 1 / 10]"]
    by simp
qed

section \<open>Where the rounding happens\<close>















end
